theory Spec2Isabelle
  imports Main "HOL-Library.Sublist" "HOL-Library.AList"
begin

section \<open>JavaScript values used by the client\<close>

text \<open>
  The client is JavaScript. A property that may be absent (\<open>undefined\<close>) is an
  \<open>option\<close>; \<open>None\<close> is the absent property. Numbers that occur here are HTTP status
  codes and counts, modelled as \<open>int\<close>. Strings are \<open>string\<close>.

  \<open>a || b\<close> yields \<open>a\<close> when \<open>a\<close> is truthy and \<open>b\<close> otherwise. An array is always
  truthy (also the empty one); a string is truthy when it is not empty.
\<close>

definition arr_or :: "'a list option \<Rightarrow> 'a list \<Rightarrow> 'a list" where
  "arr_or a b = (case a of None \<Rightarrow> b | Some xs \<Rightarrow> xs)"

definition str_or :: "string option \<Rightarrow> string \<Rightarrow> string" where
  "str_or a b = (case a of None \<Rightarrow> b | Some m \<Rightarrow> (if m = [] then b else m))"

definition str_truthy :: "string option \<Rightarrow> bool" where
  "str_truthy a = (case a of None \<Rightarrow> False | Some m \<Rightarrow> m \<noteq> [])"

text \<open>\<open>s.includes(sub)\<close>: \<open>sub\<close> occurs in \<open>s\<close> as a contiguous run of characters.\<close>

definition str_includes :: "string \<Rightarrow> string \<Rightarrow> bool" where
  "str_includes s sub = sublist sub s"

subsection \<open>Thrown values, promises, try and catch\<close>

text \<open>
  What a collaborator rejects with, and what \<open>throw new Error(msg)\<close> throws: an error
  object with an optional numeric \<open>status\<close> and an optional string \<open>message\<close>.
\<close>

record api_error =
  err_status :: "int option"
  err_message :: "string option"

definition Error :: "string \<Rightarrow> api_error" where
  "Error msg = \<lparr>err_status = None, err_message = Some msg\<rparr>"

text \<open>
  Reading a property of \<open>undefined\<close> or \<open>null\<close> throws a TypeError. Its message is
  the engine's (V8's wording is used); it names what was read from and the property.
\<close>

definition TypeError :: "string \<Rightarrow> string \<Rightarrow> api_error" where
  "TypeError base prop =
     Error (''Cannot read properties of '' @ base @ '' (reading '' @ [CHR 0x27] @ prop @ [CHR 0x27] @ '')'')"

text \<open>The collaborators answer \<open>{ success, data | message }\<close>.\<close>

record 'd response =
  success :: bool
  data :: "'d option"
  message :: "string option"

datatype 'd api_outcome = Resolves "'d response" | Rejects api_error

text \<open>A computation returns a value or throws.\<close>

datatype 'a comp = Val 'a | Throw api_error

fun await :: "'d api_outcome \<Rightarrow> 'd response comp" where
  "await (Resolves r) = Val r"
| "await (Rejects e) = Throw e"

text \<open>\<open>try { body } catch (e) { handler }\<close>, for a body that has already run.\<close>

definition try_catch :: "'a comp \<Rightarrow> (api_error \<Rightarrow> 'a comp) \<Rightarrow> 'a comp" where
  "try_catch body handler = (case body of Val v \<Rightarrow> Val v | Throw e \<Rightarrow> handler e)"

text \<open>The same with a state that the body may have changed before it threw.\<close>

definition try_catch_st ::
  "('a comp \<times> 's) \<Rightarrow> (api_error \<Rightarrow> 's \<Rightarrow> 'a comp \<times> 's) \<Rightarrow> 'a comp \<times> 's" where
  "try_catch_st body handler =
     (case body of (Val v, s) \<Rightarrow> (Val v, s) | (Throw e, s) \<Rightarrow> handler e s)"

section \<open>The authentication context\<close>

text \<open>
  Every function of the provider is modelled as one run from its call to its return: the
  outcome of the collaborator it awaits is an argument, and \<open>dispatch\<close> applies the
  reducer to the state at once.
\<close>

subsection \<open>Users, permissions, state\<close>

record permission =
  name :: string

text \<open>
  A user object: \<open>id\<close>, \<open>role\<close>, \<open>permissions\<close>, and its other properties as a list of
  keys and values.
\<close>

record user =
  u_id :: "string option"
  u_role :: "string option"
  u_permissions :: "permission list option"
  u_fields :: "(string \<times> string) list"

text \<open>\<open>{ ...a, ...b }\<close>: the properties of \<open>b\<close> override those of \<open>a\<close>; spreading
  \<open>null\<close> or \<open>undefined\<close> adds nothing.\<close>

definition empty_object :: user where
  "empty_object = \<lparr>u_id = None, u_role = None, u_permissions = None, u_fields = []\<rparr>"

definition override :: "'a option \<Rightarrow> 'a option \<Rightarrow> 'a option" where
  "override a b = (case b of None \<Rightarrow> a | Some v \<Rightarrow> Some v)"

definition spread2 :: "user option \<Rightarrow> user option \<Rightarrow> user" where
  "spread2 a b =
     (let x = (case a of None \<Rightarrow> empty_object | Some u \<Rightarrow> u);
          y = (case b of None \<Rightarrow> empty_object | Some u \<Rightarrow> u)
      in \<lparr>u_id = override (u_id x) (u_id y),
          u_role = override (u_role x) (u_role y),
          u_permissions = override (u_permissions x) (u_permissions y),
          u_fields = foldl (\<lambda>acc (k, v). AList.update k v acc) (u_fields x) (u_fields y)\<rparr>)"

record auth_state =
  isAuthenticated :: bool
  isLoading :: bool
  user :: "user option"
  error :: "string option"
  permissions :: "permission list"

definition initialState :: auth_state where
  "initialState =
     \<lparr>isAuthenticated = False, isLoading = True, user = None, error = None, permissions = []\<rparr>"

record auth_payload =
  p_user :: "user option"
  p_permissions :: "permission list option"

datatype auth_action =
    SET_LOADING bool
  | LOGIN_SUCCESS auth_payload
  | LOGIN_FAILURE string
  | LOGOUT
  | SET_USER auth_payload
  | SET_ERROR string
  | CLEAR_ERROR
  | UPDATE_PROFILE "user option"
  | OTHER_ACTION

subsection \<open>authReducer\<close>

fun authReducer :: "auth_state \<Rightarrow> auth_action \<Rightarrow> auth_state" where
  "authReducer state (SET_LOADING payload) = state\<lparr>isLoading := payload\<rparr>"
| "authReducer state (LOGIN_SUCCESS payload) =
     state\<lparr>isAuthenticated := True, isLoading := False, user := p_user payload,
           permissions := arr_or (p_permissions payload) [], error := None\<rparr>"
| "authReducer state (LOGIN_FAILURE payload) =
     state\<lparr>isAuthenticated := False, isLoading := False, user := None,
           permissions := [], error := Some payload\<rparr>"
| "authReducer state LOGOUT = initialState\<lparr>isLoading := False\<rparr>"
| "authReducer state (SET_USER payload) =
     state\<lparr>user := p_user payload,
           permissions := arr_or (p_permissions payload) (permissions state),
           isAuthenticated := True, isLoading := False\<rparr>"
| "authReducer state (SET_ERROR payload) = state\<lparr>error := Some payload, isLoading := False\<rparr>"
| "authReducer state CLEAR_ERROR = state\<lparr>error := None\<rparr>"
| "authReducer state (UPDATE_PROFILE payload) = state\<lparr>user := Some (spread2 (user state) payload)\<rparr>"
| "authReducer state OTHER_ACTION = state"

definition dispatch :: "auth_action \<Rightarrow> auth_state \<Rightarrow> auth_state" where
  "dispatch action state = authReducer state action"

subsection \<open>The token store\<close>

text \<open>
  Modelled from the spec: the session/token store of \<open>services/api\<close>
  (\<open>getAccessToken\<close>, \<open>getUserData\<close>, \<open>clearTokens\<close>), which is not among the
  sources. It holds a cached token and a cached user record; \<open>clearTokens\<close> removes them.
\<close>

record token_store =
  accessToken :: "string option"
  userData :: "user option"

definition getAccessToken :: "token_store \<Rightarrow> string option" where
  "getAccessToken store = accessToken store"

definition getUserData :: "token_store \<Rightarrow> user option" where
  "getUserData store = userData store"

definition clearTokens :: "token_store \<Rightarrow> token_store" where
  "clearTokens store = store\<lparr>accessToken := None, userData := None\<rparr>"

subsection \<open>initializeAuth\<close>

text \<open>
  The payload of \<open>getCurrentUser\<close>: an object that has a \<open>user\<close> property, or the user
  object itself. \<open>response.data.user || response.data\<close> picks the user out of either.
\<close>

datatype current_user_data = DataWithUser user | DataIsUser user

fun freshUserData :: "current_user_data \<Rightarrow> user" where
  "freshUserData (DataWithUser u) = u"
| "freshUserData (DataIsUser u) = u"

text \<open>The inner \<open>try\<close> block: the background validation of the cached token.\<close>

definition verify_try :: "current_user_data api_outcome \<Rightarrow> auth_state \<Rightarrow> unit comp \<times> auth_state" where
  "verify_try getCurrentUser s =
     (case await getCurrentUser of
        Throw e \<Rightarrow> (Throw e, s)
      | Val response \<Rightarrow>
          if success response then
            (case data response of
               None \<Rightarrow> (Throw (TypeError ''undefined'' ''user''), s)
             | Some d \<Rightarrow>
                 (Val (),
                  dispatch (LOGIN_SUCCESS
                    \<lparr>p_user = Some (freshUserData d),
                     p_permissions = Some (arr_or (u_permissions (freshUserData d)) [])\<rparr>) s))
          else (Throw (Error ''Invalid session''), s))"

text \<open>The test of the inner \<open>catch\<close>:
  \<open>verifyError.status === 401 || verifyError.message?.includes('401')\<close>.\<close>

definition is_401 :: "api_error \<Rightarrow> bool" where
  "is_401 verifyError =
     (err_status verifyError = Some 401 \<or>
      (case err_message verifyError of None \<Rightarrow> False | Some m \<Rightarrow> str_includes m ''401''))"

text \<open>
  \<open>initializeAuth\<close> returns the auth state and the token store it leaves. Nothing in the
  outer \<open>try\<close> throws outside the inner one, whose \<open>catch\<close> handles every error, so the
  outer \<open>catch\<close> has no branch here.
\<close>

definition initializeAuth ::
  "token_store \<Rightarrow> current_user_data api_outcome \<Rightarrow> auth_state \<Rightarrow> auth_state \<times> token_store" where
  "initializeAuth store getCurrentUser s0 =
     (let s1 = dispatch (SET_LOADING True) s0;
          token = getAccessToken store;
          cached = getUserData store
      in case (str_truthy token, cached) of
           (True, Some ud) \<Rightarrow>
             (let s2 = dispatch (LOGIN_SUCCESS
                         \<lparr>p_user = Some ud,
                          p_permissions = Some (arr_or (u_permissions ud) [])\<rparr>) s1
              in case verify_try getCurrentUser s2 of
                   (Val _, s3) \<Rightarrow> (s3, store)
                 | (Throw verifyError, s3) \<Rightarrow>
                     if is_401 verifyError
                     then (dispatch LOGOUT s3, clearTokens store)
                     else (s3, store))
         | _ \<Rightarrow> (dispatch (SET_LOADING False) s1, store))"

subsection \<open>The action functions\<close>

text \<open>The uniform result of an action: \<open>{ success: true, data }\<close> or
  \<open>{ success: false, error }\<close>.\<close>

record 'd action_result =
  r_success :: bool
  r_data :: "'d option"
  r_error :: "string option"

definition succeeded :: "'d option \<Rightarrow> 'd action_result" where
  "succeeded d = \<lparr>r_success = True, r_data = d, r_error = None\<rparr>"

definition failed :: "string \<Rightarrow> 'd action_result" where
  "failed errorMessage = \<lparr>r_success = False, r_data = None, r_error = Some errorMessage\<rparr>"

text \<open>The payload of \<open>login\<close> and \<open>register\<close>: an object with a \<open>user\<close> property.\<close>

record login_data =
  ld_user :: "user option"
  ld_rest :: "(string \<times> string) list"

text \<open>
  \<open>login\<close> and \<open>register\<close> return the result and the state after their dispatches.
  With a successful response both read \<open>response.data.user\<close> and then
  \<open>response.data.user.permissions\<close>; a missing \<open>data\<close> or \<open>user\<close> is a TypeError,
  caught like every other error.
\<close>

definition login ::
  "login_data api_outcome \<Rightarrow> auth_state \<Rightarrow> login_data action_result comp \<times> auth_state" where
  "login api s0 =
     try_catch_st
       (let s1 = dispatch (SET_LOADING True) s0;
            s2 = dispatch CLEAR_ERROR s1
        in case await api of
             Throw e \<Rightarrow> (Throw e, s2)
           | Val response \<Rightarrow>
               if success response then
                 (case data response of
                    None \<Rightarrow> (Throw (TypeError ''undefined'' ''user''), s2)
                  | Some d \<Rightarrow>
                      (case ld_user d of
                         None \<Rightarrow> (Throw (TypeError ''undefined'' ''permissions''), s2)
                       | Some u \<Rightarrow>
                           (Val (succeeded (data response)),
                            dispatch (LOGIN_SUCCESS
                              \<lparr>p_user = Some u,
                               p_permissions = Some (arr_or (u_permissions u) [])\<rparr>) s2)))
               else (Throw (Error (str_or (message response) ''Login failed'')), s2))
       (\<lambda>e s.
          let errorMessage = str_or (err_message e) ''Login failed''
          in (Val (failed errorMessage), dispatch (LOGIN_FAILURE errorMessage) s))"

definition register ::
  "login_data api_outcome \<Rightarrow> auth_state \<Rightarrow> login_data action_result comp \<times> auth_state" where
  "register api s0 =
     try_catch_st
       (let s1 = dispatch (SET_LOADING True) s0;
            s2 = dispatch CLEAR_ERROR s1
        in case await api of
             Throw e \<Rightarrow> (Throw e, s2)
           | Val response \<Rightarrow>
               if success response then
                 (case data response of
                    None \<Rightarrow> (Throw (TypeError ''undefined'' ''user''), s2)
                  | Some d \<Rightarrow>
                      (case ld_user d of
                         None \<Rightarrow> (Throw (TypeError ''undefined'' ''permissions''), s2)
                       | Some u \<Rightarrow>
                           (Val (succeeded (data response)),
                            dispatch (LOGIN_SUCCESS
                              \<lparr>p_user = Some u,
                               p_permissions = Some (arr_or (u_permissions u) [])\<rparr>) s2)))
               else (Throw (Error (str_or (message response) ''Registration failed'')), s2))
       (\<lambda>e s.
          let errorMessage = str_or (err_message e) ''Registration failed''
          in (Val (failed errorMessage), dispatch (SET_ERROR errorMessage) s))"

text \<open>
  \<open>logout\<close> calls \<open>authAPI.logoutAll\<close> or \<open>authAPI.logout\<close>, logs a rejection, and
  dispatches \<open>LOGOUT\<close> in its \<open>finally\<close>. Both outcomes are arguments; the flag selects
  the one that is awaited.
\<close>

definition logout ::
  "bool \<Rightarrow> unit api_outcome \<Rightarrow> unit api_outcome \<Rightarrow> auth_state \<Rightarrow> unit comp \<times> auth_state" where
  "logout logoutAll api_logoutAll api_logout s0 =
     (let body = (if logoutAll then await api_logoutAll else await api_logout);
          caught = try_catch (case body of Val _ \<Rightarrow> Val () | Throw e \<Rightarrow> Throw e) (\<lambda>e. Val ())
      in (caught, dispatch LOGOUT s0))"

definition updateProfile ::
  "user api_outcome \<Rightarrow> auth_state \<Rightarrow> user action_result comp \<times> auth_state" where
  "updateProfile api s0 =
     try_catch_st
       (case await api of
          Throw e \<Rightarrow> (Throw e, s0)
        | Val response \<Rightarrow>
            if success response
            then (Val (succeeded (data response)), dispatch (UPDATE_PROFILE (data response)) s0)
            else (Throw (Error (str_or (message response) ''Profile update failed'')), s0))
       (\<lambda>e s. (Val (failed (str_or (err_message e) ''Profile update failed'')), s))"

text \<open>These five return \<open>response.data\<close> of whatever response the call resolved with.\<close>

definition changePassword :: "'d api_outcome \<Rightarrow> 'd action_result comp" where
  "changePassword api =
     try_catch
       (case await api of
          Throw e \<Rightarrow> Throw e
        | Val response \<Rightarrow> Val (succeeded (data response)))
       (\<lambda>e. Val (failed (str_or (err_message e) ''Password change failed'')))"

definition forgotPassword :: "'d api_outcome \<Rightarrow> 'd action_result comp" where
  "forgotPassword api =
     try_catch
       (case await api of
          Throw e \<Rightarrow> Throw e
        | Val response \<Rightarrow> Val (succeeded (data response)))
       (\<lambda>e. Val (failed (str_or (err_message e) ''Password reset request failed'')))"

definition resetPassword :: "'d api_outcome \<Rightarrow> 'd action_result comp" where
  "resetPassword api =
     try_catch
       (case await api of
          Throw e \<Rightarrow> Throw e
        | Val response \<Rightarrow> Val (succeeded (data response)))
       (\<lambda>e. Val (failed (str_or (err_message e) ''Password reset failed'')))"



definition clearError :: "auth_state \<Rightarrow> auth_state" where
  "clearError s = dispatch CLEAR_ERROR s"

subsection \<open>Predicates on the session\<close>

definition hasPermission :: "auth_state \<Rightarrow> string \<Rightarrow> bool" where
  "hasPermission state perm_name =
     (case user state of
        None \<Rightarrow> False
      | Some u \<Rightarrow>
          if u_role u = Some ''InstituteAdmin'' then True
          else list_ex (\<lambda>perm. name perm = perm_name) (permissions state))"



subsection \<open>The states the provider can be in\<close>

text \<open>
  The provider starts in \<open>initialState\<close> and changes its state only through the
  dispatches of its own functions. \<open>SET_USER\<close> is never dispatched.
\<close>

inductive reachable :: "auth_state \<Rightarrow> bool" where
  r_initial: "reachable initialState"
| r_initializeAuth: "reachable s \<Longrightarrow> reachable (fst (initializeAuth store getCurrentUser s))"
| r_login: "reachable s \<Longrightarrow> reachable (snd (login api s))"
| r_register: "reachable s \<Longrightarrow> reachable (snd (register api s))"
| r_logout: "reachable s \<Longrightarrow> reachable (snd (logout logoutAll api_all api_one s))"
| r_updateProfile: "reachable s \<Longrightarrow> reachable (snd (updateProfile api_profile s))"
| r_clearError: "reachable s \<Longrightarrow> reachable (clearError s)"

section \<open>The student attendance view\<close>

subsection \<open>Classes, students, attendance records\<close>

text \<open>
  \<open>classIncharge\<close> of a class is absent, \<open>null\<close>, the id of a user, or a populated
  user object with its \<open>_id\<close>.
\<close>

datatype incharge =
    InchargeUndefined
  | InchargeNull
  | InchargeId string
  | InchargeObject "string option"

record school_class =
  c_id :: string
  className :: string
  classIncharge :: incharge

record student =
  s_id :: string
  s_name :: "string option"

record attendance_record =
  status :: string
  markedAt :: "string option"
  markedBy :: "string option"

text \<open>
  The \<open>attendance\<close> object maps a student id to a record. Its own properties are a list
  of keys and values in insertion order with no key twice; \<open>{ ...prev, [k]: v }\<close> is
  \<open>AList.update k v prev\<close> on them, \<open>Object.keys\<close> and \<open>Object.values\<close> see them
  and nothing else.

  A lookup \<open>attendance[k]\<close> also finds what the object inherits. A plain object
  inherits the properties of \<open>Object.prototype\<close>, all of them truthy. An assignment
  \<open>attendanceMap['__proto__'] = record\<close> does not add a property: it makes the record
  the prototype of the map, which then inherits the record's \<open>status\<close>, \<open>markedAt\<close>
  and \<open>markedBy\<close> as well. \<open>attendancePrototype\<close> is that record, or \<open>None\<close> for a
  map whose prototype is \<open>Object.prototype\<close> itself.
\<close>

type_synonym attendance_map = "(string \<times> attendance_record) list"


record view_state =
  classes :: "school_class list"
  selectedClass :: "school_class option"
  attendanceDate :: string
  students :: "student list"
  attendance :: attendance_map
  attendancePrototype :: "attendance_record option"
  loading :: bool
  saving :: bool

subsection \<open>Requests\<close>

record mark_body =
  b_studentId :: string
  b_classId :: string
  b_date :: string
  b_status :: string
  b_markedBy :: "string option"

record request =
  endpoint :: string
  http_method :: string
  body :: "mark_body option"

definition GET :: "string \<Rightarrow> request" where
  "GET url = \<lparr>endpoint = url, http_method = ''GET'', body = None\<rparr>"

definition POST :: "string \<Rightarrow> mark_body \<Rightarrow> request" where
  "POST url b = \<lparr>endpoint = url, http_method = ''POST'', body = Some b\<rparr>"


subsection \<open>loadAccessibleClasses\<close>






subsection \<open>loadExistingAttendance\<close>

text \<open>A record as the server sends it: the student it is about (with its \<open>_id\<close>), the
  status, and who marked it when.\<close>

record server_record =
  sr_student :: "student option"
  sr_status :: string
  sr_markedAt :: "string option"
  sr_markedBy :: "string option"

definition record_of :: "server_record \<Rightarrow> attendance_record" where
  "record_of r = \<lparr>status = sr_status r, markedAt = sr_markedAt r, markedBy = sr_markedBy r\<rparr>"

text \<open>The \<open>forEach\<close> that builds \<open>attendanceMap\<close> by assignments
  \<open>attendanceMap[record.student._id] = { ... }\<close>; a record without a \<open>student\<close>
  throws. It returns the own properties of the map and its prototype.\<close>

fun build_map ::
  "server_record list \<Rightarrow> attendance_map \<Rightarrow> attendance_record option
     \<Rightarrow> (attendance_map \<times> attendance_record option) comp" where
  "build_map [] attendanceMap proto = Val (attendanceMap, proto)"
| "build_map (r # rs) attendanceMap proto =
     (case sr_student r of
        None \<Rightarrow> Throw (TypeError ''undefined'' ''_id'')
      | Some st \<Rightarrow>
          if s_id st = ''__proto__''
          then build_map rs attendanceMap (Some (record_of r))
          else build_map rs (AList.update (s_id st) (record_of r) attendanceMap) proto)"

definition loadExistingAttendance ::
  "(request \<Rightarrow> server_record list api_outcome) \<Rightarrow> view_state \<Rightarrow> view_state" where
  "loadExistingAttendance callApi s0 =
     (case selectedClass s0 of
        None \<Rightarrow> s0
      | Some cls \<Rightarrow>
          (case await (callApi (GET (''/api/attendance/class/'' @ c_id cls @ ''/date/'' @ attendanceDate s0))) of
             Throw e \<Rightarrow> s0\<lparr>attendance := [], attendancePrototype := None\<rparr>
           | Val response \<Rightarrow>
               (case (success response, data response) of
                  (True, Some records) \<Rightarrow>
                    (case build_map records [] None of
                       Val (attendanceMap, proto) \<Rightarrow>
                         s0\<lparr>attendance := attendanceMap, attendancePrototype := proto\<rparr>
                     | Throw e \<Rightarrow> s0\<lparr>attendance := [], attendancePrototype := None\<rparr>)
                | _ \<Rightarrow> s0\<lparr>attendance := [], attendancePrototype := None\<rparr>)))"

subsection \<open>markAttendance and markAllPresent\<close>

text \<open>
  \<open>markAttendance\<close> sends one write and, when the response is successful, stores the
  record under the student's id in a new plain object \<open>{ ...prev, [studentId]: ... }\<close>.
  \<open>now\<close> is what \<open>new Date().toISOString()\<close> returns. Reading
  \<open>selectedClass._id\<close> or \<open>user.id\<close> of a missing class or user throws before
  anything is sent; every error is caught and logged.
\<close>

definition markAttendance ::
  "user option \<Rightarrow> (request \<Rightarrow> unit api_outcome) \<Rightarrow> string \<Rightarrow> string \<Rightarrow> string
     \<Rightarrow> view_state \<Rightarrow> view_state" where
  "markAttendance usr callApi now studentId stat s0 =
     (let s1 = s0\<lparr>saving := True\<rparr>;
          tried =
            try_catch_st
              (case selectedClass s1 of
                 None \<Rightarrow> (Throw (TypeError ''null'' ''_id''), s1)
               | Some cls \<Rightarrow>
                   (case usr of
                      None \<Rightarrow> (Throw (TypeError ''undefined'' ''id''), s1)
                    | Some u \<Rightarrow>
                        (case await (callApi (POST ''/api/attendance/mark''
                                 \<lparr>b_studentId = studentId, b_classId = c_id cls,
                                  b_date = attendanceDate s1, b_status = stat,
                                  b_markedBy = u_id u\<rparr>)) of
                           Throw e \<Rightarrow> (Throw e, s1)
                         | Val response \<Rightarrow>
                             if success response then
                               (Val (),
                                s1\<lparr>attendance :=
                                     AList.update studentId
                                       \<lparr>status = stat, markedAt = Some now, markedBy = u_id u\<rparr>
                                       (attendance s1),
                                   attendancePrototype := None\<rparr>)
                             else (Val (), s1))))
              (\<lambda>e s. (Val (), s))
      in (snd tried)\<lparr>saving := False\<rparr>)"



text \<open>
  The loop of \<open>markAllPresent\<close>: one \<open>markAttendance\<close> after the other. The \<open>k\<close>-th
  write of the loop is answered by \<open>callApi k\<close> at the time \<open>now k\<close>.
\<close>

fun mark_each ::
  "user option \<Rightarrow> (nat \<Rightarrow> request \<Rightarrow> unit api_outcome) \<Rightarrow> (nat \<Rightarrow> string) \<Rightarrow> nat
     \<Rightarrow> student list \<Rightarrow> view_state \<Rightarrow> view_state" where
  "mark_each usr callApi now k [] s = s"
| "mark_each usr callApi now k (st # rest) s =
     mark_each usr callApi now (Suc k) rest
       (markAttendance usr (callApi k) (now k) (s_id st) ''present'' s)"


subsection \<open>getAttendanceStats\<close>

record attendance_stats =
  total :: int
  marked :: int
  present :: int
  absent :: int
  unmarked :: int

definition getAttendanceStats :: "view_state \<Rightarrow> attendance_stats" where
  "getAttendanceStats s =
     (let total = int (length (students s));
          marked = int (length (attendance s));
          present = int (length (filter (\<lambda>a. status a = ''present'') (map snd (attendance s))));
          absent = int (length (filter (\<lambda>a. status a = ''absent'') (map snd (attendance s))))
      in \<lparr>total = total, marked = marked, present = present, absent = absent,
          unmarked = total - marked\<rparr>)"


section \<open>Notions used in the properties\<close>

text \<open>A state without a user has no permissions.\<close>

definition session_inv :: "auth_state \<Rightarrow> bool" where
  "session_inv s = (user s = None \<longrightarrow> permissions s = [])"

text \<open>A call fails when it rejects or resolves with a response that is not successful;
  it succeeds when it resolves with a successful response.\<close>

definition unsuccessful :: "'d api_outcome \<Rightarrow> bool" where
  "unsuccessful api = (case api of Rejects e \<Rightarrow> True | Resolves r \<Rightarrow> \<not> success r)"


subsection \<open>Sample data\<close>

definition alice :: user where
  "alice = \<lparr>u_id = Some ''u1'', u_role = Some ''Teacher'',
            u_permissions = Some [\<lparr>name = ''attendance.mark''\<rparr>],
            u_fields = [(''fullName'', ''Alice'')]\<rparr>"


definition cached_store :: token_store where
  "cached_store = \<lparr>accessToken = Some ''token'', userData = Some alice\<rparr>"

definition unauthorized :: api_error where
  "unauthorized = \<lparr>err_status = Some 401, err_message = Some ''Unauthorized''\<rparr>"

definition network_error :: api_error where
  "network_error = \<lparr>err_status = None, err_message = Some ''Network Error''\<rparr>"

definition login_ok :: "login_data api_outcome" where
  "login_ok = Resolves \<lparr>success = True,
                        data = Some \<lparr>ld_user = Some alice, ld_rest = []\<rparr>,
                        message = None\<rparr>"

text \<open>The state after Alice has logged in from the initial state.\<close>

definition logged_in :: auth_state where
  "logged_in = snd (login login_ok initialState)"

definition class_9a :: school_class where
  "class_9a = \<lparr>c_id = ''c1'', className = ''9-A'', classIncharge = InchargeId ''u1''\<rparr>"


definition sara :: student where
  "sara = \<lparr>s_id = ''s1'', s_name = Some ''Sara''\<rparr>"

definition omar :: student where
  "omar = \<lparr>s_id = ''s2'', s_name = Some ''Omar''\<rparr>"

definition omar_absent :: attendance_record where
  "omar_absent = \<lparr>status = ''absent'', markedAt = Some ''2024-01-01T08:00:00.000Z'',
                  markedBy = Some ''u1''\<rparr>"

definition roster_view :: view_state where
  "roster_view = \<lparr>classes = [class_9a], selectedClass = Some class_9a,
                  attendanceDate = ''2024-01-01'', students = [sara, omar],
                  attendance = [(''s2'', omar_absent)], attendancePrototype = None,
                  loading = False, saving = False\<rparr>"






text \<open>A server that has Sara recorded as late on that day, and the view after it has
  loaded that day's attendance.\<close>

definition late_server :: "request \<Rightarrow> server_record list api_outcome" where
  "late_server req =
     Resolves \<lparr>success = True,
               data = Some [\<lparr>sr_student = Some sara, sr_status = ''late'',
                             sr_markedAt = Some ''2024-01-01T08:05:00.000Z'',
                             sr_markedBy = Some ''u1''\<rparr>],
               message = None\<rparr>"

definition late_view :: view_state where
  "late_view = loadExistingAttendance late_server roster_view"


section \<open>Properties\<close>

subsection \<open>Auxiliary facts\<close>

lemma str_or_nonempty: "d \<noteq> [] \<Longrightarrow> str_or a d \<noteq> []"
  by (simp add: str_or_def split: option.splits)

lemma str_includes_iff: "str_includes s sub \<longleftrightarrow> (\<exists>pre post. s = pre @ sub @ post)"
  by (simp add: str_includes_def sublist_def)

text \<open>The test of the inner \<open>catch\<close> holds for status 401 and for a message in which
  \<open>401\<close> occurs, and for nothing else.\<close>

lemma is_401_iff:
  "is_401 e \<longleftrightarrow>
     err_status e = Some 401 \<or>
     (\<exists>pre post. err_message e = Some (pre @ ''401'' @ post))"
  by (auto simp: is_401_def str_includes_iff split: option.splits)

text \<open>Each function of the provider keeps \<open>session_inv\<close>.\<close>

lemma inv_initializeAuth: "session_inv s \<Longrightarrow> session_inv (fst (initializeAuth store api s))"
  by (auto simp: session_inv_def initializeAuth_def verify_try_def dispatch_def initialState_def
        Let_def
      split: option.splits bool.splits comp.splits prod.splits api_outcome.splits if_splits)

lemma inv_login: "session_inv s \<Longrightarrow> session_inv (snd (login api s))"
  by (auto simp: session_inv_def login_def try_catch_st_def dispatch_def Let_def
      split: option.splits comp.splits prod.splits api_outcome.splits if_splits)

lemma inv_register: "session_inv s \<Longrightarrow> session_inv (snd (register api s))"
  by (auto simp: session_inv_def register_def try_catch_st_def dispatch_def Let_def
      split: option.splits comp.splits prod.splits api_outcome.splits if_splits)

lemma inv_logout: "session_inv (snd (logout b api_all api_one s))"
  by (simp add: session_inv_def logout_def dispatch_def initialState_def Let_def)

lemma inv_updateProfile: "session_inv s \<Longrightarrow> session_inv (snd (updateProfile api s))"
  by (auto simp: session_inv_def updateProfile_def try_catch_st_def dispatch_def Let_def
      split: option.splits comp.splits prod.splits api_outcome.splits if_splits)

lemma inv_clearError: "session_inv s \<Longrightarrow> session_inv (clearError s)"
  by (simp add: session_inv_def clearError_def dispatch_def)

lemma reachable_inv: "reachable s \<Longrightarrow> session_inv s"
proof (induction rule: reachable.induct)
  case r_initial
  show ?case by (simp add: session_inv_def initialState_def)
qed (simp_all add: inv_initializeAuth inv_login inv_register inv_logout inv_updateProfile
       inv_clearError)

lemma logged_in_eq:
  "logged_in = \<lparr>isAuthenticated = True, isLoading = False, user = Some alice, error = None,
                permissions = [\<lparr>name = ''attendance.mark''\<rparr>]\<rparr>"
  by (simp add: logged_in_def login_def login_ok_def try_catch_st_def dispatch_def
        initialState_def alice_def arr_or_def Let_def)

lemma reachable_logged_in: "reachable logged_in"
  unfolding logged_in_def by (rule r_login) (rule r_initial)


text \<open>A write that is not sent, rejects or is refused leaves the map as it was.\<close>

lemma markAttendance_keeps_others:
  "key \<noteq> sid \<Longrightarrow>
   map_of (attendance (markAttendance usr callApi now sid stat s)) key = map_of (attendance s) key"
  by (auto simp: markAttendance_def try_catch_st_def Let_def update_conv'
      split: option.splits comp.splits api_outcome.splits)

lemma markAttendance_distinct:
  "distinct (map fst (attendance s)) \<Longrightarrow>
   distinct (map fst (attendance (markAttendance usr callApi now sid stat s)))"
  by (auto simp: markAttendance_def try_catch_st_def Let_def distinct_update
      split: option.splits comp.splits api_outcome.splits)

text \<open>The map that is built from the records of the server has no key twice.\<close>

lemma build_map_distinct:
  "distinct (map fst acc) \<Longrightarrow> build_map records acc proto = Val (m, proto') \<Longrightarrow>
   distinct (map fst m)"
proof (induction records arbitrary: acc proto)
  case Nil
  then show ?case by simp
next
  case (Cons r rs)
  show ?case
  proof (cases "sr_student r")
    case None
    with Cons.prems show ?thesis by simp
  next
    case (Some st)
    show ?thesis
    proof (cases "s_id st = ''__proto__''")
      case True
      with Cons.prems(2) Some have "build_map rs acc (Some (record_of r)) = Val (m, proto')"
        by simp
      with Cons.prems(1) show ?thesis by (rule Cons.IH)
    next
      case False
      let ?acc = "AList.update (s_id st) (record_of r) acc"
      from Cons.prems(1) have "distinct (map fst ?acc)" by (rule distinct_update)
      moreover from Cons.prems(2) Some False have "build_map rs ?acc proto = Val (m, proto')"
        by simp
      ultimately show ?thesis by (rule Cons.IH)
    qed
  qed
qed


lemma count_two_statuses:
  "\<forall>a \<in> set xs. status a = ''present'' \<or> status a = ''absent'' \<Longrightarrow>
   length xs = length (filter (\<lambda>a. status a = ''present'') xs) +
               length (filter (\<lambda>a. status a = ''absent'') xs)"
  by (induction xs) auto





text \<open>The loop leaves alone every key it is not asked to mark.\<close>

lemma mark_each_others:
  "key \<notin> s_id ` set sts \<Longrightarrow>
   map_of (attendance (mark_each usr callApi now k sts s)) key = map_of (attendance s) key"
  by (induction sts arbitrary: s k) (simp_all add: markAttendance_keeps_others)


subsection \<open>Restoring the session\<close>

text \<open>
  C1. At initialization with a cached token and a cached user, when the validation call
  rejects: the test of the \<open>catch\<close> holds exactly for an error with status 401 or with a
  message in which \<open>401\<close> occurs; when it holds, the state is the cleared one and the
  cached tokens are removed; for every other error the session stays authenticated with
  the cached user and the store is as it was. So the session is cleared exactly for the
  401 errors, and so are the tokens.
\<close>

theorem initializeAuth_rejected:
  assumes "str_truthy (getAccessToken store)" and "getUserData store = Some ud"
  shows "(is_401 e \<longleftrightarrow>
            err_status e = Some 401 \<or>
            (\<exists>pre post. err_message e = Some (pre @ ''401'' @ post))) \<and>
         (is_401 e \<longrightarrow>
            fst (initializeAuth store (Rejects e) s) = initialState\<lparr>isLoading := False\<rparr> \<and>
            snd (initializeAuth store (Rejects e) s) = clearTokens store) \<and>
         (\<not> is_401 e \<longrightarrow>
            isAuthenticated (fst (initializeAuth store (Rejects e) s)) \<and>
            user (fst (initializeAuth store (Rejects e) s)) = Some ud \<and>
            snd (initializeAuth store (Rejects e) s) = store) \<and>
         (isAuthenticated (fst (initializeAuth store (Rejects e) s)) \<longleftrightarrow> \<not> is_401 e) \<and>
         (getAccessToken (snd (initializeAuth store (Rejects e) s)) = None \<longleftrightarrow> is_401 e)"
proof -
  have run: "initializeAuth store (Rejects e) s =
               (if is_401 e
                then (initialState\<lparr>isLoading := False\<rparr>, clearTokens store)
                else (dispatch (LOGIN_SUCCESS
                        \<lparr>p_user = Some ud, p_permissions = Some (arr_or (u_permissions ud) [])\<rparr>)
                        (dispatch (SET_LOADING True) s), store))"
    using assms by (simp add: initializeAuth_def verify_try_def Let_def dispatch_def)
  have tok: "getAccessToken store \<noteq> None"
    using assms(1) by (auto simp: str_truthy_def split: option.splits)
  show ?thesis
    unfolding run
    using tok assms(2)
    by (simp add: is_401_iff dispatch_def initialState_def clearTokens_def getAccessToken_def)
qed

theorem initializeAuth_rejected_witness:
  "str_truthy (getAccessToken cached_store) \<and> getUserData cached_store = Some alice \<and>
   is_401 unauthorized \<and> \<not> is_401 network_error \<and>
   fst (initializeAuth cached_store (Rejects unauthorized) initialState) =
     initialState\<lparr>isLoading := False\<rparr> \<and>
   snd (initializeAuth cached_store (Rejects unauthorized) initialState) =
     \<lparr>accessToken = None, userData = None\<rparr> \<and>
   user (fst (initializeAuth cached_store (Rejects network_error) initialState)) = Some alice \<and>
   snd (initializeAuth cached_store (Rejects network_error) initialState) = cached_store"
proof -
  have h1: "str_truthy (getAccessToken cached_store)"
    by (simp add: str_truthy_def getAccessToken_def cached_store_def)
  have h2: "getUserData cached_store = Some alice"
    by (simp add: getUserData_def cached_store_def)
  have a: "is_401 unauthorized"
    by (simp add: is_401_def unauthorized_def)
  have b: "\<not> is_401 network_error"
    by (simp add: is_401_def network_error_def str_includes_def sublist_code)
  show ?thesis
    using h1 h2 a b
      initializeAuth_rejected [OF h1 h2, of unauthorized initialState]
      initializeAuth_rejected [OF h1 h2, of network_error initialState]
    by (simp add: clearTokens_def cached_store_def)
qed



subsection \<open>Permissions\<close>

text \<open>
  C2. In every state the provider can reach, \<open>hasPermission\<close> is true of a permission
  name exactly when the session user has the role InstituteAdmin or the permission set
  has an entry of that name.
\<close>

theorem hasPermission_spec:
  assumes "reachable s"
  shows "hasPermission s p \<longleftrightarrow>
           (\<exists>u. user s = Some u \<and> u_role u = Some ''InstituteAdmin'') \<or>
           (\<exists>perm \<in> set (permissions s). name perm = p)"
proof -
  from assms have "session_inv s" by (rule reachable_inv)
  then show ?thesis
    by (auto simp: hasPermission_def session_inv_def list_ex_iff split: option.splits)
qed

theorem hasPermission_spec_witness:
  "reachable logged_in \<and> hasPermission logged_in ''attendance.mark'' \<and>
   \<not> hasPermission logged_in ''fees.edit''"
  using hasPermission_spec [OF reachable_logged_in, of "''attendance.mark''"]
    hasPermission_spec [OF reachable_logged_in, of "''fees.edit''"]
    reachable_logged_in
  by (simp add: logged_in_eq alice_def)

subsection \<open>Login, registration and logout\<close>

text \<open>
  C3, as the code has it. A failing \<open>login\<close> (the call rejects or answers without
  success) leaves an error message and a cleared session: not authenticated, no user, no
  permissions. A failing \<open>register\<close> leaves an error message and the loading flag off,
  and leaves \<open>isAuthenticated\<close>, the user and the permissions as they were before the
  call: it dispatches \<open>SET_ERROR\<close>, not \<open>LOGIN_FAILURE\<close>.
\<close>

theorem login_register_failure:
  assumes "unsuccessful api"
  shows "(\<exists>m. error (snd (login api s)) = Some m \<and> m \<noteq> []) \<and>
         \<not> isAuthenticated (snd (login api s)) \<and>
         user (snd (login api s)) = None \<and>
         permissions (snd (login api s)) = [] \<and>
         (\<exists>m. error (snd (register api s)) = Some m \<and> m \<noteq> []) \<and>
         \<not> isLoading (snd (register api s)) \<and>
         isAuthenticated (snd (register api s)) = isAuthenticated s \<and>
         user (snd (register api s)) = user s \<and>
         permissions (snd (register api s)) = permissions s"
  using assms
  by (cases api)
     (simp_all add: unsuccessful_def login_def register_def try_catch_st_def dispatch_def Let_def
        Error_def str_or_nonempty)

theorem login_register_failure_witness:
  "unsuccessful (Rejects network_error :: login_data api_outcome) \<and>
   error (snd (login (Rejects network_error) logged_in)) = Some ''Network Error'' \<and>
   user (snd (login (Rejects network_error) logged_in)) = None \<and>
   error (snd (register (Rejects network_error) logged_in)) = Some ''Network Error'' \<and>
   user (snd (register (Rejects network_error) logged_in)) = Some alice"
proof -
  have h: "unsuccessful (Rejects network_error :: login_data api_outcome)"
    by (simp add: unsuccessful_def)
  have e1: "error (snd (login (Rejects network_error) logged_in)) = Some ''Network Error''"
    by (simp add: login_def try_catch_st_def dispatch_def Let_def network_error_def str_or_def)
  have e2: "error (snd (register (Rejects network_error) logged_in)) = Some ''Network Error''"
    by (simp add: register_def try_catch_st_def dispatch_def Let_def network_error_def str_or_def)
  show ?thesis
    using h e1 e2 login_register_failure [OF h, of logged_in]
    by (simp add: logged_in_eq)
qed

text \<open>
  A failing \<open>register\<close> does not clear the session: after Alice has logged in, a
  registration that rejects leaves her authenticated, with her user record and her
  permissions.
\<close>

theorem register_failure_counterexample:
  "unsuccessful (Rejects network_error :: login_data api_outcome) \<and>
   isAuthenticated (snd (register (Rejects network_error) logged_in)) \<and>
   user (snd (register (Rejects network_error) logged_in)) = Some alice \<and>
   permissions (snd (register (Rejects network_error) logged_in)) = [\<lparr>name = ''attendance.mark''\<rparr>]"
  by (simp add: unsuccessful_def register_def try_catch_st_def dispatch_def Let_def logged_in_eq)

text \<open>
  C9. \<open>logout\<close>, with or without the logout-all flag and whether the remote call
  resolves or rejects, leaves the cleared state: not authenticated, not loading, no user,
  no error, no permissions. It returns without throwing.
\<close>

theorem logout_clears:
  "snd (logout logoutAll api_all api_one s) =
     \<lparr>isAuthenticated = False, isLoading = False, user = None, error = None, permissions = []\<rparr> \<and>
   fst (logout logoutAll api_all api_one s) = Val ()"
  by (cases api_all; cases api_one)
     (simp_all add: logout_def dispatch_def initialState_def try_catch_def Let_def)

theorem logout_clears_witness:
  "snd (logout True (Rejects network_error) (Rejects network_error) logged_in) =
     \<lparr>isAuthenticated = False, isLoading = False, user = None, error = None, permissions = []\<rparr> \<and>
   isAuthenticated logged_in"
  using logout_clears [of True "Rejects network_error" "Rejects network_error" logged_in]
  by (simp add: logged_in_eq)

subsection \<open>The result of an action\<close>




text \<open>
  C10. \<open>changePassword\<close>, \<open>forgotPassword\<close> and \<open>resetPassword\<close> return
  \<open>{ success: true, data: response.data }\<close> for every response the call resolves with,
  whatever its own \<open>success\<close> flag, and a failure result exactly when the call rejects.
\<close>

theorem password_actions_forward:
  "changePassword api =
     (case api of
        Resolves r \<Rightarrow> Val \<lparr>r_success = True, r_data = data r, r_error = None\<rparr>
      | Rejects e \<Rightarrow>
          Val \<lparr>r_success = False, r_data = None,
               r_error = Some (str_or (err_message e) ''Password change failed'')\<rparr>) \<and>
   forgotPassword api =
     (case api of
        Resolves r \<Rightarrow> Val \<lparr>r_success = True, r_data = data r, r_error = None\<rparr>
      | Rejects e \<Rightarrow>
          Val \<lparr>r_success = False, r_data = None,
               r_error = Some (str_or (err_message e) ''Password reset request failed'')\<rparr>) \<and>
   resetPassword api =
     (case api of
        Resolves r \<Rightarrow> Val \<lparr>r_success = True, r_data = data r, r_error = None\<rparr>
      | Rejects e \<Rightarrow>
          Val \<lparr>r_success = False, r_data = None,
               r_error = Some (str_or (err_message e) ''Password reset failed'')\<rparr>)"
  by (cases api)
     (simp_all add: changePassword_def forgotPassword_def resetPassword_def try_catch_def
        succeeded_def failed_def)

theorem password_actions_forward_witness:
  "changePassword (Resolves \<lparr>success = False, data = Some ''ignored'', message = Some ''Wrong password''\<rparr>) =
     Val \<lparr>r_success = True, r_data = Some ''ignored'', r_error = None\<rparr> \<and>
   resetPassword (Rejects network_error :: string api_outcome) =
     Val \<lparr>r_success = False, r_data = None, r_error = Some ''Network Error''\<rparr>"
  using password_actions_forward
          [of "Resolves \<lparr>success = False, data = Some ''ignored'', message = Some ''Wrong password''\<rparr>"]
        password_actions_forward [of "Rejects network_error :: string api_outcome"]
  by (simp add: network_error_def str_or_def)

subsection \<open>The attendance view\<close>







text \<open>
  C5, as the code has it. \<open>unmarked\<close> is the number of students less the number of
  records in the map. When every record has status \<open>present\<close> or \<open>absent\<close>, that is the
  number of students less the present and the absent ones.
\<close>

theorem getAttendanceStats_unmarked:
  "unmarked (getAttendanceStats s) = int (length (students s)) - int (length (attendance s)) \<and>
   total (getAttendanceStats s) = int (length (students s)) \<and>
   ((\<forall>a \<in> set (map snd (attendance s)). status a = ''present'' \<or> status a = ''absent'') \<longrightarrow>
      unmarked (getAttendanceStats s) =
        total (getAttendanceStats s) -
          (present (getAttendanceStats s) + absent (getAttendanceStats s)))"
  using count_two_statuses[of "map snd (attendance s)"]
  by (auto simp: getAttendanceStats_def Let_def)

theorem getAttendanceStats_unmarked_witness:
  "list_all (\<lambda>a. status a = ''present'' \<or> status a = ''absent'') (map snd (attendance roster_view)) \<and>
   unmarked (getAttendanceStats roster_view) = 1 \<and>
   total (getAttendanceStats roster_view) = 2 \<and>
   present (getAttendanceStats roster_view) = 0 \<and>
   absent (getAttendanceStats roster_view) = 1"
proof -
  have h: "\<forall>a \<in> set (map snd (attendance roster_view)). status a = ''present'' \<or> status a = ''absent''"
    by (simp add: roster_view_def omar_absent_def)
  have pa: "present (getAttendanceStats roster_view) = 0" "absent (getAttendanceStats roster_view) = 1"
    by (simp_all add: getAttendanceStats_def Let_def roster_view_def omar_absent_def)
  have l: "list_all (\<lambda>a. status a = ''present'' \<or> status a = ''absent'')
             (map snd (attendance roster_view))"
    using h by (simp add: list_all_iff)
  show ?thesis
    using h l pa getAttendanceStats_unmarked [of roster_view]
    by (simp add: roster_view_def)
qed

text \<open>
  A record with another status is counted as marked, and as neither present nor absent.
  The view copies the status of a record from the server as it is. With two students, one
  of whom the server has recorded as late, \<open>unmarked\<close> is 1 while the number of
  students less the present and the absent ones is 2.
\<close>

theorem getAttendanceStats_counterexample:
  "students late_view = [sara, omar] \<and>
   attendance late_view =
     [(''s1'', \<lparr>status = ''late'', markedAt = Some ''2024-01-01T08:05:00.000Z'',
               markedBy = Some ''u1''\<rparr>)] \<and>
   total (getAttendanceStats late_view) = 2 \<and>
   present (getAttendanceStats late_view) = 0 \<and>
   absent (getAttendanceStats late_view) = 0 \<and>
   unmarked (getAttendanceStats late_view) = 1 \<and>
   unmarked (getAttendanceStats late_view) \<noteq>
     total (getAttendanceStats late_view) -
       (present (getAttendanceStats late_view) + absent (getAttendanceStats late_view))"
  by (simp add: getAttendanceStats_def Let_def late_view_def loadExistingAttendance_def
        late_server_def roster_view_def sara_def record_of_def class_9a_def)

end
